theory Spec2Isabelle
  imports Main
begin

section \<open>Python strings\<close>

text \<open>
  The bot (\<^verbatim>\<open>bot/bot.py\<close>) works on Python \<^verbatim>\<open>str\<close> values. A \<open>string\<close> here is a list of
  code points below 256 (one \<open>char\<close> per code point); texts with code points beyond that
  range are outside the model. The string methods below follow CPython for this range.
\<close>

text \<open>\<^verbatim>\<open>ch.isspace()\<close>: the white space that \<^verbatim>\<open>split()\<close> and \<^verbatim>\<open>strip()\<close> skip.\<close>

definition isspace :: "char \<Rightarrow> bool" where
  "isspace c = (of_char c \<in> {9, 10, 11, 12, 13, 28, 29, 30, 31, 32, 133, 160 :: nat})"

text \<open>\<^verbatim>\<open>s.strip()\<close>\<close>

definition strip :: "string \<Rightarrow> string" where
  "strip s = rev (dropWhile isspace (rev (dropWhile isspace s)))"

text \<open>
  \<^verbatim>\<open>s.split(maxsplit=1)\<close>: leading white space is skipped; the first token runs to the next
  white space; the white space after it is skipped and what is left, if anything, is the
  second element, with its trailing white space kept.
\<close>

definition split_maxsplit1 :: "string \<Rightarrow> string list" where
  "split_maxsplit1 s =
     (let s1 = dropWhile isspace s in
      if s1 = [] then []
      else
        let tok = takeWhile (\<lambda>c. \<not> isspace c) s1;
            rest = dropWhile isspace (dropWhile (\<lambda>c. \<not> isspace c) s1)
        in if rest = [] then [tok] else [tok, rest])"

text \<open>\<^verbatim>\<open>s.split(sep, 1)\<close> for a separator of one character.\<close>

definition split_sep1 :: "char \<Rightarrow> string \<Rightarrow> string list" where
  "split_sep1 sep s =
     (if sep \<in> set s
      then [takeWhile (\<lambda>c. c \<noteq> sep) s, tl (dropWhile (\<lambda>c. c \<noteq> sep) s)]
      else [s])"

text \<open>\<^verbatim>\<open>s.startswith(p)\<close>\<close>

definition startswith :: "string \<Rightarrow> string \<Rightarrow> bool" where
  "startswith s p = (take (length p) s = p)"

text \<open>\<^verbatim>\<open>s.replace(old, new, 1)\<close>: the first occurrence of \<open>old\<close>, if any, is replaced.\<close>

fun replace1 :: "string \<Rightarrow> string \<Rightarrow> string \<Rightarrow> string" where
  "replace1 old new [] = (if old = [] then new else [])"
| "replace1 old new (c # cs) =
     (if startswith (c # cs) old then new @ drop (length old) (c # cs)
      else c # replace1 old new cs)"

text \<open>\<^verbatim>\<open>sep.join(xs)\<close>\<close>

fun join :: "string \<Rightarrow> string list \<Rightarrow> string" where
  "join sep [] = []"
| "join sep [x] = x"
| "join sep (x # y # ys) = x @ sep @ join sep (y # ys)"

text \<open>\<^verbatim>\<open>ch.lower()\<close> and \<^verbatim>\<open>s.lower()\<close>\<close>

definition lower_char :: "char \<Rightarrow> char" where
  "lower_char c =
     (let n = (of_char c :: nat) in
      if (65 \<le> n \<and> n \<le> 90) \<or> (192 \<le> n \<and> n \<le> 222 \<and> n \<noteq> 215) then char_of (n + 32)
      else c)"

definition lower :: "string \<Rightarrow> string" where
  "lower s = map lower_char s"

text \<open>
  \<^verbatim>\<open>str(n)\<close> for an integer: decimal digits, with a minus sign when negative. The limit that
  the interpreter puts on the number of digits (4300 by default) is not modelled.
\<close>

fun digits :: "nat \<Rightarrow> string" where
  "digits n =
     (if n < 10 then [''0123456789'' ! n]
      else digits (n div 10) @ [''0123456789'' ! (n mod 10)])"

declare digits.simps [simp del]

definition str_int :: "int \<Rightarrow> string" where
  "str_int i = (if i < 0 then CHR ''-'' # digits (nat (- i)) else digits (nat i))"

text \<open>
  \<^verbatim>\<open>repr(s)\<close> for a string: single quotes unless the string has a single quote and no double
  quote; the quote and the backslash are escaped, tab, newline and carriage return are
  written \<^verbatim>\<open>\t \n \r\<close>, every other code point that is not printable as \<^verbatim>\<open>\xhh\<close>.
\<close>

definition hex_digit :: "nat \<Rightarrow> char" where
  "hex_digit n = ''0123456789abcdef'' ! n"

definition printable :: "char \<Rightarrow> bool" where
  "printable c = (let n = (of_char c :: nat) in (32 \<le> n \<and> n < 127) \<or> (160 < n \<and> n \<noteq> 173))"

definition repr_char :: "char \<Rightarrow> char \<Rightarrow> string" where
  "repr_char quote c =
     (if c = quote \<or> c = CHR 0x5C then [CHR 0x5C, c]
      else if c = CHR 0x09 then [CHR 0x5C, CHR ''t'']
      else if c = CHR 0x0A then [CHR 0x5C, CHR ''n'']
      else if c = CHR 0x0D then [CHR 0x5C, CHR ''r'']
      else if printable c then [c]
      else [CHR 0x5C, CHR ''x'', hex_digit (of_char c div 16), hex_digit (of_char c mod 16)])"

definition repr_str :: "string \<Rightarrow> string" where
  "repr_str s =
     (let quote = (if CHR 0x27 \<in> set s \<and> CHR 0x22 \<notin> set s then CHR 0x22 else CHR 0x27)
      in [quote] @ concat (map (repr_char quote) s) @ [quote])"

section \<open>JSON values and Python's view of them\<close>

text \<open>
  What \<^verbatim>\<open>response.json()\<close> returns: \<^verbatim>\<open>None\<close>, a \<^verbatim>\<open>bool\<close>, an \<^verbatim>\<open>int\<close>, a \<^verbatim>\<open>str\<close>, a \<^verbatim>\<open>list\<close> or a
  \<^verbatim>\<open>dict\<close> with string keys (its items in insertion order). JSON numbers with a fraction or
  an exponent (Python \<^verbatim>\<open>float\<close>) are outside the model.
\<close>

datatype json =
    JNull
  | JBool bool
  | JInt int
  | JStr string
  | JArr "json list"
  | JObj "(string \<times> json) list"

text \<open>
  The exceptions the handlers can meet. \<open>RuntimeError\<close> keeps the argument it was raised
  with; the others carry the text that \<^verbatim>\<open>str(err)\<close> gives. \<open>ClientError\<close> stands for whatever
  \<^verbatim>\<open>aiohttp\<close> raises when no response arrives (connection failure, timeout), and
  \<open>JSONDecodeError\<close> for what \<^verbatim>\<open>response.json\<close> raises on a body it cannot parse; the text of
  both is the library's. The texts of the interpreter's own errors are CPython 3.11's.
\<close>

datatype exn =
    RuntimeError json
  | ClientError string
  | JSONDecodeError string
  | KeyError string
  | IndexError string
  | TypeError string
  | AttributeError string
  | ValueError string

text \<open>\<^verbatim>\<open>type(v).__name__\<close>\<close>

fun type_name :: "json \<Rightarrow> string" where
  "type_name JNull = ''NoneType''"
| "type_name (JBool _) = ''bool''"
| "type_name (JInt _) = ''int''"
| "type_name (JStr _) = ''str''"
| "type_name (JArr _) = ''list''"
| "type_name (JObj _) = ''dict''"

definition quoted :: "string \<Rightarrow> string" where
  "quoted s = [CHR 0x27] @ s @ [CHR 0x27]"

text \<open>\<^verbatim>\<open>repr(v)\<close> and \<^verbatim>\<open>str(v)\<close>: they differ on a string only.\<close>

fun repr :: "json \<Rightarrow> string" where
  "repr JNull = ''None''"
| "repr (JBool b) = (if b then ''True'' else ''False'')"
| "repr (JInt i) = str_int i"
| "repr (JStr s) = repr_str s"
| "repr (JArr xs) = ''['' @ join '', '' (map repr xs) @ '']''"
| "repr (JObj kvs) =
     ''{'' @ join '', '' (map (\<lambda>kv. repr_str (fst kv) @ '': '' @ repr (snd kv)) kvs) @ ''}''"

definition str :: "json \<Rightarrow> string" where
  "str v = (case v of JStr s \<Rightarrow> s | _ \<Rightarrow> repr v)"

text \<open>\<^verbatim>\<open>str(err)\<close>, as the f-strings of the handlers render a caught exception.\<close>

fun str_exn :: "exn \<Rightarrow> string" where
  "str_exn (RuntimeError v) = str v"
| "str_exn (ClientError m) = m"
| "str_exn (JSONDecodeError m) = m"
| "str_exn (KeyError k) = repr_str k"
| "str_exn (IndexError m) = m"
| "str_exn (TypeError m) = m"
| "str_exn (AttributeError m) = m"
| "str_exn (ValueError m) = m"

text \<open>Truth value of a value, as \<^verbatim>\<open>not v\<close> and \<^verbatim>\<open>v or d\<close> test it.\<close>

fun truthy :: "json \<Rightarrow> bool" where
  "truthy JNull = False"
| "truthy (JBool b) = b"
| "truthy (JInt i) = (i \<noteq> 0)"
| "truthy (JStr s) = (s \<noteq> [])"
| "truthy (JArr xs) = (xs \<noteq> [])"
| "truthy (JObj kvs) = (kvs \<noteq> [])"

text \<open>\<^verbatim>\<open>v.get(key, default)\<close>: only a dict has the method.\<close>

definition dict_get :: "(string \<times> json) list \<Rightarrow> string \<Rightarrow> json \<Rightarrow> json" where
  "dict_get kvs k d = (case map_of kvs k of Some v \<Rightarrow> v | None \<Rightarrow> d)"

fun get :: "json \<Rightarrow> string \<Rightarrow> json \<Rightarrow> exn + json" where
  "get (JObj kvs) k d = Inr (dict_get kvs k d)"
| "get v k d =
     Inl (AttributeError (quoted (type_name v) @ '' object has no attribute '' @ quoted ''get''))"

text \<open>\<^verbatim>\<open>v[key]\<close> with a string key.\<close>

fun subscript :: "json \<Rightarrow> string \<Rightarrow> exn + json" where
  "subscript (JObj kvs) k = (case map_of kvs k of Some v \<Rightarrow> Inr v | None \<Rightarrow> Inl (KeyError k))"
| "subscript (JArr xs) k = Inl (TypeError ''list indices must be integers or slices, not str'')"
| "subscript (JStr s) k = Inl (TypeError (''string indices must be integers, not '' @ quoted ''str''))"
| "subscript v k = Inl (TypeError (quoted (type_name v) @ '' object is not subscriptable''))"

text \<open>
  The values a \<^verbatim>\<open>for\<close> loop draws from \<open>v\<close>: the elements of a list, the characters of a
  string, the keys of a dict.
\<close>

fun iterate :: "json \<Rightarrow> exn + json list" where
  "iterate (JArr xs) = Inr xs"
| "iterate (JStr s) = Inr (map (\<lambda>c. JStr [c]) s)"
| "iterate (JObj kvs) = Inr (map (\<lambda>kv. JStr (fst kv)) kvs)"
| "iterate v = Inl (TypeError (quoted (type_name v) @ '' object is not iterable''))"

text \<open>
  \<^verbatim>\<open>int(v)\<close>. A string is stripped of white space and read as an optional sign and decimal
  digits, where single underscores may stand between digits.
\<close>

definition is_digit :: "char \<Rightarrow> bool" where
  "is_digit c = (48 \<le> (of_char c :: nat) \<and> (of_char c :: nat) \<le> 57)"

fun int_digits :: "nat \<Rightarrow> string \<Rightarrow> nat option" where
  "int_digits acc [] = Some acc"
| "int_digits acc [c] = (if is_digit c then Some (10 * acc + (of_char c - 48)) else None)"
| "int_digits acc (c # d # cs) =
     (if is_digit c then
        (if d = CHR ''_'' then
           (if cs = [] then None else int_digits (10 * acc + (of_char c - 48)) cs)
         else int_digits (10 * acc + (of_char c - 48)) (d # cs))
      else None)"

definition int_literal :: "string \<Rightarrow> int option" where
  "int_literal s =
     (let t = strip s;
          neg = (t \<noteq> [] \<and> hd t = CHR ''-'');
          u = (if t \<noteq> [] \<and> (hd t = CHR ''-'' \<or> hd t = CHR ''+'') then tl t else t)
      in if u = [] then None
         else (case int_digits 0 u of
                 None \<Rightarrow> None
               | Some n \<Rightarrow> Some (if neg then - int n else int n)))"

fun int_of :: "json \<Rightarrow> exn + int" where
  "int_of (JInt i) = Inr i"
| "int_of (JBool b) = Inr (if b then 1 else 0)"
| "int_of (JStr s) =
     (case int_literal s of
        Some i \<Rightarrow> Inr i
      | None \<Rightarrow> Inl (ValueError (''invalid literal for int() with base 10: '' @ repr_str s)))"
| "int_of v =
     Inl (TypeError (''int() argument must be a string, a bytes-like object or a real number, not ''
                     @ quoted (type_name v)))"

text \<open>\<^verbatim>\<open>xs[i]\<close> on a list of strings.\<close>

definition index :: "string list \<Rightarrow> nat \<Rightarrow> exn + string" where
  "index xs i = (if i < length xs then Inr (xs ! i) else Inl (IndexError ''list index out of range''))"

text \<open>Sequencing of steps that may raise: the first exception ends the evaluation.\<close>

definition seq :: "exn + 'a \<Rightarrow> ('a \<Rightarrow> exn + 'b) \<Rightarrow> exn + 'b" where
  "seq r f = (case r of Inl e \<Rightarrow> Inl e | Inr x \<Rightarrow> f x)"

section \<open>Messages, the backend and the effects of a handler\<close>

text \<open>
  An inbound \<^verbatim>\<open>Message\<close>, with the attributes the bot reads. \<^verbatim>\<open>message.from_user.id\<close> raises
  \<^verbatim>\<open>AttributeError\<close> when the message has no sender.
\<close>

record user =
  user_id :: int
  username :: "string option"

record message =
  message_text :: "string option"
  caption :: "string option"
  from_user :: "user option"

definition from_user_id :: "message \<Rightarrow> exn + int" where
  "from_user_id m =
     (case from_user m of
        None \<Rightarrow> Inl (AttributeError (quoted ''NoneType'' @ '' object has no attribute '' @ quoted ''id''))
      | Some u \<Rightarrow> Inr (user_id u))"

definition from_user_username :: "message \<Rightarrow> exn + json" where
  "from_user_username m =
     (case from_user m of
        None \<Rightarrow>
          Inl (AttributeError (quoted ''NoneType'' @ '' object has no attribute '' @ quoted ''username''))
      | Some u \<Rightarrow> Inr (case username u of None \<Rightarrow> JNull | Some n \<Rightarrow> JStr n))"

text \<open>\<^verbatim>\<open>message.text or ''\<close>\<close>

definition text_or_empty :: "message \<Rightarrow> string" where
  "text_or_empty m = (case message_text m of None \<Rightarrow> [] | Some t \<Rightarrow> t)"

text \<open>
  A request as \<^verbatim>\<open>call_backend\<close> receives it. The base URL and the token header are
  configuration and the same for every request; they are left out.
\<close>

record request =
  req_method :: string
  req_path :: string
  req_payload :: "json option"

text \<open>
  What comes back for a request: no response at all (\<^verbatim>\<open>aiohttp\<close> raises, with the given
  text), or a response with its status and its body as \<^verbatim>\<open>response.json(content_type=None)\<close>
  reads it: the parsed value, or the text of the exception on a body that does not parse.
\<close>

datatype body = Unparsable string | Parsed json

datatype outcome = NoResponse string | Response nat body

type_synonym backend = "request \<Rightarrow> outcome"

text \<open>
  The effects of handling one message: the backend requests made and the chat replies sent
  (\<^verbatim>\<open>message.answer\<close>), each in order. Sending a reply is taken to succeed.
\<close>

record reply =
  reply_text :: string
  parse_mode :: "string option"

record effects =
  calls :: "request list"
  replies :: "reply list"

text \<open>
  A piece of handler code: from the effects so far it gives a value or the exception it
  raised, and the effects after it.
\<close>

type_synonym 'a act = "effects \<Rightarrow> (exn + 'a) \<times> effects"

definition lift :: "exn + 'a \<Rightarrow> 'a act" where
  "lift r = (\<lambda>s. (r, s))"

definition and_then :: "'a act \<Rightarrow> ('a \<Rightarrow> 'b act) \<Rightarrow> 'b act" where
  "and_then m f = (\<lambda>s. case m s of (Inl e, s') \<Rightarrow> (Inl e, s') | (Inr x, s') \<Rightarrow> f x s')"

text \<open>\<^verbatim>\<open>try: m  except Exception as err: h(err)\<close>\<close>

definition try_except :: "'a act \<Rightarrow> (exn \<Rightarrow> 'a act) \<Rightarrow> 'a act" where
  "try_except m h = (\<lambda>s. case m s of (Inl e, s') \<Rightarrow> h e s' | (Inr x, s') \<Rightarrow> (Inr x, s'))"

text \<open>\<^verbatim>\<open>await message.answer(text, parse_mode=...)\<close>\<close>

definition answer :: "string \<Rightarrow> string option \<Rightarrow> unit act" where
  "answer t pm = (\<lambda>s. (Inr (), s\<lparr>replies := replies s @ [\<lparr>reply_text = t, parse_mode = pm\<rparr>]\<rparr>))"

text \<open>
  \<^verbatim>\<open>call_backend\<close>: the body is read as JSON first, whatever the status; then a status of 400
  or more raises \<^verbatim>\<open>RuntimeError\<close> with the \<^verbatim>\<open>message\<close> entry of a dict (\<^verbatim>\<open>None\<close> when it has
  none) or the \<^verbatim>\<open>str\<close> of any other value.
\<close>

definition call_backend :: "backend \<Rightarrow> string \<Rightarrow> string \<Rightarrow> json option \<Rightarrow> json act" where
  "call_backend be method path payload =
     (\<lambda>s.
        let req = \<lparr>req_method = method, req_path = path, req_payload = payload\<rparr>;
            s' = s\<lparr>calls := calls s @ [req]\<rparr>
        in case be req of
             NoResponse m \<Rightarrow> (Inl (ClientError m), s')
           | Response status b \<Rightarrow>
               (case b of
                  Unparsable m \<Rightarrow> (Inl (JSONDecodeError m), s')
                | Parsed data \<Rightarrow>
                    if status \<ge> 400 then
                      (Inl (RuntimeError
                              (case data of
                                 JObj kvs \<Rightarrow> dict_get kvs ''message'' JNull
                               | _ \<Rightarrow> JStr (str data))), s')
                    else (Inr data, s')))"

section \<open>The handlers\<close>

definition nl :: string where
  "nl = [CHR 0x0A]"

text \<open>\<^verbatim>\<open>start_with_param\<close>\<close>

definition start_with_param :: "backend \<Rightarrow> message \<Rightarrow> unit act" where
  "start_with_param be message =
     (let text = text_or_empty message;
          parts = split_maxsplit1 text;
          arg = (if length parts > 1 then parts ! 1 else [])
      in
        if startswith arg ''login_'' then
          (let code = replace1 ''login_'' [] arg in
           try_except
             (and_then (lift (from_user_id message)) (\<lambda>uid.
              and_then (lift (from_user_username message)) (\<lambda>uname.
              and_then
                (call_backend be ''POST'' ''/api/telegram/bot/oauth''
                   (Some (JObj [(''code'', JStr code),
                                (''telegramUserId'', JStr (str_int uid)),
                                (''username'', uname)])))
                (\<lambda>_. answer ''Login approved. Return to SteamGuard Web and wait for auto-login.'' None))))
             (\<lambda>err. answer (''Login failed: '' @ str_exn err) None))
        else
          answer
            (''SteamGuard Bot ready.'' @ nl @
             ''Commands:'' @ nl @
             ''/add=<code> - link Telegram to web account'' @ nl @
             ''/accounts - list Steam accounts'' @ nl @
             ''/codes - get auth codes'' @ nl @
             ''/confirm <trade_id> - confirm pending trade'' @ nl @
             ''/status - bot/backend status'')
            None)"

text \<open>\<^verbatim>\<open>start_plain\<close>\<close>

definition start_plain :: "message \<Rightarrow> unit act" where
  "start_plain message =
     answer ''SteamGuard Bot is active. Use /accounts, /codes or /add=<code> from web settings.'' None"

text \<open>\<^verbatim>\<open>status\<close>\<close>

definition status :: "backend \<Rightarrow> message \<Rightarrow> unit act" where
  "status be message =
     try_except
       (and_then (lift (from_user_id message)) (\<lambda>uid.
        and_then (call_backend be ''GET'' (''/api/telegram/bot/accounts/'' @ str_int uid) None) (\<lambda>_.
        answer ''Backend connection: OK'' None)))
       (\<lambda>err. answer (''Backend connection error: '' @ str_exn err) None)"

text \<open>
  \<^verbatim>\<open>accounts\<close>. One line per item; the f-string reads \<^verbatim>\<open>item['id']\<close>, \<^verbatim>\<open>item['alias']\<close> and
  \<^verbatim>\<open>item.get('steamid')\<close> in this order, and the loop ends at the first exception.
\<close>

definition account_line :: "json \<Rightarrow> exn + string" where
  "account_line item =
     seq (subscript item ''id'') (\<lambda>i.
     seq (subscript item ''alias'') (\<lambda>alias.
     seq (get item ''steamid'' JNull) (\<lambda>steamid.
     Inr (''- ['' @ str i @ ''] '' @ str alias @ '' (''
          @ str (if truthy steamid then steamid else JStr ''no steamid'') @ '')''))))"

fun account_lines :: "string list \<Rightarrow> json list \<Rightarrow> exn + string list" where
  "account_lines lines [] = Inr lines"
| "account_lines lines (item # items) =
     (case account_line item of
        Inl e \<Rightarrow> Inl e
      | Inr l \<Rightarrow> account_lines (lines @ [l]) items)"

definition accounts :: "backend \<Rightarrow> message \<Rightarrow> unit act" where
  "accounts be message =
     try_except
       (and_then (lift (from_user_id message)) (\<lambda>uid.
        and_then (call_backend be ''GET'' (''/api/telegram/bot/accounts/'' @ str_int uid) None) (\<lambda>data.
        and_then (lift (get data ''items'' (JArr []))) (\<lambda>items.
          if \<not> truthy items then answer ''No Steam accounts linked.'' None
          else
            and_then (lift (seq (iterate items) (account_lines [''Your Steam accounts:'']))) (\<lambda>lines.
            answer (join nl lines) None)))))
       (\<lambda>err. answer (''Failed to fetch accounts: '' @ str_exn err) None)"

text \<open>\<^verbatim>\<open>codes\<close>\<close>

definition code_line :: "json \<Rightarrow> exn + string" where
  "code_line item =
     seq (subscript item ''alias'') (\<lambda>alias.
     seq (subscript item ''code'') (\<lambda>code.
     Inr (''- '' @ str alias @ '': `'' @ str code @ ''`'')))"

fun code_lines :: "string list \<Rightarrow> json list \<Rightarrow> exn + string list" where
  "code_lines lines [] = Inr lines"
| "code_lines lines (item # items) =
     (case code_line item of
        Inl e \<Rightarrow> Inl e
      | Inr l \<Rightarrow> code_lines (lines @ [l]) items)"

definition codes :: "backend \<Rightarrow> message \<Rightarrow> unit act" where
  "codes be message =
     try_except
       (and_then (lift (from_user_id message)) (\<lambda>uid.
        and_then (call_backend be ''GET'' (''/api/telegram/bot/codes/'' @ str_int uid) None) (\<lambda>data.
        and_then (lift (get data ''items'' (JArr []))) (\<lambda>items.
          if \<not> truthy items then answer ''No linked accounts or codes unavailable.'' None
          else
            and_then (lift (seq (iterate items) (code_lines [''Current Steam codes:'']))) (\<lambda>lines.
            answer (join nl lines) (Some ''Markdown''))))))
       (\<lambda>err. answer (''Failed to fetch codes: '' @ str_exn err) None)"

text \<open>
  \<^verbatim>\<open>confirm\<close>. The two loops that look for the pending item: each returns the first item that
  matches (\<^verbatim>\<open>break\<close>), \<^verbatim>\<open>None\<close> when the items run out, and raises what \<^verbatim>\<open>item[...]\<close> raises.
  In the first loop \<^verbatim>\<open>and\<close> reads \<^verbatim>\<open>item['confirmation_id']\<close> only when the account matched.
\<close>

fun find_account_confirmation :: "string \<Rightarrow> string \<Rightarrow> json list \<Rightarrow> exn + json" where
  "find_account_confirmation left right [] = Inr JNull"
| "find_account_confirmation left right (item # items) =
     (case subscript item ''account_id'' of
        Inl e \<Rightarrow> Inl e
      | Inr a \<Rightarrow>
          if str a = left then
            (case subscript item ''confirmation_id'' of
               Inl e \<Rightarrow> Inl e
             | Inr c \<Rightarrow>
                 if str c = right then Inr item
                 else find_account_confirmation left right items)
          else find_account_confirmation left right items)"

fun find_confirmation :: "string \<Rightarrow> json list \<Rightarrow> exn + json" where
  "find_confirmation identifier [] = Inr JNull"
| "find_confirmation identifier (item # items) =
     (case subscript item ''confirmation_id'' of
        Inl e \<Rightarrow> Inl e
      | Inr c \<Rightarrow>
          if str c = identifier then Inr item
          else find_confirmation identifier items)"

text \<open>The choice of the pending item, from \<^verbatim>\<open>chosen = None\<close> to the end of the loops.\<close>

definition chosen_item :: "json \<Rightarrow> string \<Rightarrow> exn + json" where
  "chosen_item items identifier =
     (if CHR '':'' \<in> set identifier then
        (case split_sep1 (CHR '':'') identifier of
           [left, right] \<Rightarrow> seq (iterate items) (find_account_confirmation left right)
         | _ \<Rightarrow> Inl (ValueError ''not enough values to unpack (expected 2, got 1)''))
      else seq (iterate items) (find_confirmation identifier))"

definition confirm :: "backend \<Rightarrow> message \<Rightarrow> unit act" where
  "confirm be message =
     (let text = text_or_empty message;
          parts = split_maxsplit1 text
      in
        if length parts < 2 then
          answer ''Usage: /confirm <trade_id> OR /confirm <account_id>:<trade_id>'' None
        else
          and_then (lift (index parts 1)) (\<lambda>part.
          let identifier = strip part in
          try_except
            (and_then (lift (from_user_id message)) (\<lambda>uid.
             and_then (call_backend be ''GET'' (''/api/telegram/bot/confirms/'' @ str_int uid) None) (\<lambda>pending.
             and_then (lift (get pending ''items'' (JArr []))) (\<lambda>items.
               if \<not> truthy items then answer ''No pending confirmations.'' None
               else
                 and_then (lift (chosen_item items identifier)) (\<lambda>chosen.
                   if \<not> truthy chosen then
                     answer ''Trade confirmation id not found in pending queue.'' None
                   else
                     and_then (lift (from_user_id message)) (\<lambda>uid'.
                     and_then (lift (seq (subscript chosen ''account_id'') int_of)) (\<lambda>account_id.
                     and_then (lift (subscript chosen ''confirmation_id'')) (\<lambda>confirmation_id.
                     and_then (lift (get chosen ''nonce'' JNull)) (\<lambda>nonce.
                     and_then
                       (call_backend be ''POST'' ''/api/telegram/bot/confirm''
                          (Some (JObj [(''telegramUserId'', JStr (str_int uid')),
                                       (''accountId'', JInt account_id),
                                       (''confirmationId'', JStr (str confirmation_id)),
                                       (''nonce'', nonce)])))
                       (\<lambda>_. answer ''Trade confirmation sent to Steam successfully.'' None))))))))))
            (\<lambda>err. answer (''Confirm failed: '' @ str_exn err) None)))"

text \<open>
  \<^verbatim>\<open>fallback\<close>. In both \<^verbatim>\<open>/add\<close> branches the code is cut out of the text before the \<^verbatim>\<open>try\<close>
  block is entered.
\<close>

definition link :: "backend \<Rightarrow> message \<Rightarrow> string \<Rightarrow> unit act" where
  "link be message code =
     try_except
       (and_then (lift (from_user_id message)) (\<lambda>uid.
        and_then (lift (from_user_username message)) (\<lambda>uname.
        and_then
          (call_backend be ''POST'' ''/api/telegram/bot/link''
             (Some (JObj [(''code'', JStr code),
                          (''telegramUserId'', JStr (str_int uid)),
                          (''username'', uname)])))
          (\<lambda>_. answer ''Telegram account linked successfully.'' None))))
       (\<lambda>err. answer (''Link failed: '' @ str_exn err) None)"

definition fallback :: "backend \<Rightarrow> message \<Rightarrow> unit act" where
  "fallback be message =
     (let text = strip (text_or_empty message) in
      if startswith text ''/add='' then
        and_then (lift (index (split_sep1 (CHR ''='') text) 1)) (\<lambda>code. link be message code)
      else if startswith text ''/add '' then
        and_then (lift (index (split_maxsplit1 text) 1)) (\<lambda>part. link be message (strip part))
      else answer ''Unknown command. Use /accounts, /codes, /confirm or /add=<code>.'' None)"

section \<open>The dispatcher\<close>

text \<open>
  The decorators \<^verbatim>\<open>@dp.message(...)\<close> register the handlers in the order of the file, and the
  dispatcher calls the first handler whose filter accepts the message. The filters are
  \<^verbatim>\<open>aiogram\<close>'s \<^verbatim>\<open>Command\<close> and \<^verbatim>\<open>CommandStart\<close>: they read \<^verbatim>\<open>message.text or message.caption\<close>, cut it
  with \<^verbatim>\<open>split(maxsplit=1)\<close> into the full command and its arguments, and cut the full command
  into the prefix (its first character), the command name and, after an \<^verbatim>\<open>@\<close>, the mention.
\<close>

record bot =
  bot_username :: "string option"

record command_object =
  cmd_prefix :: string
  cmd_command :: string
  cmd_mention :: "string option"
  cmd_args :: "string option"

definition text_or_caption :: "message \<Rightarrow> string option" where
  "text_or_caption m =
     (case message_text m of
        None \<Rightarrow> caption m
      | Some t \<Rightarrow> if t \<noteq> [] then Some t else caption m)"

definition extract_command :: "string \<Rightarrow> command_object option" where
  "extract_command text =
     (case split_maxsplit1 text of
        [] \<Rightarrow> None
      | full_command # args \<Rightarrow>
          let rest = drop 1 full_command;
              mention = drop 1 (dropWhile (\<lambda>c. c \<noteq> CHR ''@'') rest)
          in Some \<lparr>cmd_prefix = take 1 full_command,
                   cmd_command = takeWhile (\<lambda>c. c \<noteq> CHR ''@'') rest,
                   cmd_mention = (if mention = [] then None else Some mention),
                   cmd_args = (case args of [] \<Rightarrow> None | a # _ \<Rightarrow> Some a)\<rparr>)"

text \<open>
  A mention is refused when the bot has a user name and the two differ after \<^verbatim>\<open>lower()\<close>.
\<close>

definition mention_ok :: "bot \<Rightarrow> command_object \<Rightarrow> bool" where
  "mention_ok b c =
     (case cmd_mention c of
        None \<Rightarrow> True
      | Some mention \<Rightarrow>
          (case bot_username b of
             None \<Rightarrow> True
           | Some name \<Rightarrow> name = [] \<or> lower mention = lower name))"

text \<open>\<^verbatim>\<open>Command(name)\<close>: prefix \<^verbatim>\<open>/\<close>, the mention, then the command name, compared as it is.\<close>

definition command_filter :: "string \<Rightarrow> bot \<Rightarrow> message \<Rightarrow> command_object option" where
  "command_filter name b m =
     (case text_or_caption m of
        None \<Rightarrow> None
      | Some text \<Rightarrow>
          if text = [] then None
          else
            (case extract_command text of
               None \<Rightarrow> None
             | Some c \<Rightarrow>
                 if cmd_prefix c \<noteq> ''/'' then None
                 else if \<not> mention_ok b c then None
                 else if cmd_command c \<noteq> name then None
                 else Some c))"

text \<open>
  \<^verbatim>\<open>CommandStart(deep_link=...)\<close>: the command \<^verbatim>\<open>start\<close>; with \<^verbatim>\<open>deep_link=True\<close> the arguments must
  not be missing.
\<close>

definition command_start :: "bool \<Rightarrow> bot \<Rightarrow> message \<Rightarrow> bool" where
  "command_start deep_link b m =
     (case command_filter ''start'' b m of
        None \<Rightarrow> False
      | Some c \<Rightarrow>
          if \<not> deep_link then True
          else (case cmd_args c of None \<Rightarrow> False | Some a \<Rightarrow> a \<noteq> []))"

definition command :: "string \<Rightarrow> bot \<Rightarrow> message \<Rightarrow> bool" where
  "command name b m = (command_filter name b m \<noteq> None)"

text \<open>The handler that the dispatcher calls for a message.\<close>

definition dispatch :: "bot \<Rightarrow> backend \<Rightarrow> message \<Rightarrow> unit act" where
  "dispatch b be m =
     (if command_start True b m then start_with_param be m
      else if command_start False b m then start_plain m
      else if command ''status'' b m then status be m
      else if command ''accounts'' b m then accounts be m
      else if command ''codes'' b m then codes be m
      else if command ''confirm'' b m then confirm be m
      else fallback be m)"

text \<open>
  Handling one inbound message: the outcome of the handler (\<open>Inl\<close> when an exception leaves
  it) and the requests and replies it made.
\<close>

definition no_effects :: effects where
  "no_effects = \<lparr>calls = [], replies = []\<rparr>"

definition handle :: "bot \<Rightarrow> backend \<Rightarrow> message \<Rightarrow> (exn + unit) \<times> effects" where
  "handle b be m = dispatch b be m no_effects"

section \<open>The pending confirmations of the data model\<close>

text \<open>
  A well-formed pending confirmation and the JSON object that stands for it under \<^verbatim>\<open>items\<close>,
  with the keys that \<^verbatim>\<open>confirm\<close> reads: \<^verbatim>\<open>item['account_id']\<close>, \<^verbatim>\<open>item['confirmation_id']\<close> and
  \<^verbatim>\<open>chosen.get('nonce')\<close>, the last one optional.
\<close>

record pending_confirmation =
  account_id :: int
  confirmation_id :: string
  nonce :: "string option"

definition pending_json :: "pending_confirmation \<Rightarrow> json" where
  "pending_json p =
     JObj ([(''account_id'', JInt (account_id p)), (''confirmation_id'', JStr (confirmation_id p))]
           @ (case nonce p of None \<Rightarrow> [] | Some n \<Rightarrow> [(''nonce'', JStr n)]))"

section \<open>Counting replies\<close>

text \<open>
  Three properties of a piece of handler code: \<open>silent\<close> code sends no reply; \<open>replies_once\<close>
  code sends exactly one reply when it ends without an exception and none when it raises;
  code that \<open>answers\<close> never raises and sends exactly one reply.
\<close>

definition silent :: "'a act \<Rightarrow> bool" where
  "silent m = (\<forall>s. replies (snd (m s)) = replies s)"

definition replies_once :: "'a act \<Rightarrow> bool" where
  "replies_once m =
     (\<forall>s. case m s of
            (Inl e, s') \<Rightarrow> replies s' = replies s
          | (Inr x, s') \<Rightarrow> length (replies s') = Suc (length (replies s)))"

definition answers :: "'a act \<Rightarrow> bool" where
  "answers m = (\<forall>s. \<exists>x s'. m s = (Inr x, s') \<and> length (replies s') = Suc (length (replies s)))"




section \<open>How the body of a response is read\<close>





section \<open>Facts about the string methods\<close>

lemma split_maxsplit1_token:
  assumes "tok \<noteq> []" "\<forall>c\<in>set tok. \<not> isspace c" "\<forall>c\<in>set ws. isspace c"
  shows "split_maxsplit1 (tok @ ws) = [tok]"
proof -
  have a: "dropWhile isspace (tok @ ws) = tok @ ws"
    using assms(1,2) by (cases tok) auto
  have b: "takeWhile (\<lambda>c. \<not> isspace c) (tok @ ws) = tok"
    using assms(2,3) by (cases ws) (auto simp: takeWhile_append2 takeWhile_tail)
  have c: "dropWhile (\<lambda>c. \<not> isspace c) (tok @ ws) = ws"
    using assms(2,3) by (cases ws) (auto simp: dropWhile_append2)
  have d: "dropWhile isspace ws = []"
    using assms(3) by simp
  show ?thesis
    using assms(1) by (simp add: split_maxsplit1_def a b c d Let_def)
qed

lemma split_maxsplit1_token_arg:
  assumes "tok \<noteq> []" "\<forall>c\<in>set tok. \<not> isspace c" "ws \<noteq> []" "\<forall>c\<in>set ws. isspace c"
    "arg \<noteq> []" "\<not> isspace (hd arg)"
  shows "split_maxsplit1 (tok @ ws @ arg) = [tok, arg]"
proof -
  have a: "dropWhile isspace (tok @ ws @ arg) = tok @ ws @ arg"
    using assms(1,2) by (cases tok) auto
  have b: "takeWhile (\<lambda>c. \<not> isspace c) (tok @ ws @ arg) = tok"
    using assms(2,3,4) by (cases ws) (auto simp: takeWhile_append2 takeWhile_tail)
  have c: "dropWhile (\<lambda>c. \<not> isspace c) (tok @ ws @ arg) = ws @ arg"
    using assms(2,3,4) by (cases ws) (auto simp: dropWhile_append2)
  have d: "dropWhile isspace (ws @ arg) = arg"
    using assms(4,5,6) by (cases arg) (auto simp: dropWhile_append2)
  show ?thesis
    using assms(1,5) by (simp add: split_maxsplit1_def a b c d Let_def)
qed

lemma strip_last: "strip t \<noteq> [] \<Longrightarrow> \<not> isspace (last (strip t))"
  unfolding strip_def by (simp add: last_rev hd_dropWhile)

lemma replace1_prefix: "old \<noteq> [] \<Longrightarrow> replace1 old new (old @ x) = new @ x"
  by (cases old) (auto simp: startswith_def)

lemma isspace_space: "isspace (CHR '' '')"
  by (simp add: isspace_def)

lemma split_add_space:
  assumes "startswith (strip t) ''/add ''"
  shows "\<exists>arg. split_maxsplit1 (strip t) = [''/add'', arg]"
proof -
  define stripped where "stripped = strip t"
  define rest where "rest = drop 5 stripped"
  have "take 5 stripped = ''/add ''"
    using assms by (simp add: startswith_def stripped_def eval_nat_numeral)
  then have tx: "stripped = ''/add '' @ rest"
    unfolding rest_def by (metis append_take_drop_id)
  then have ne: "stripped \<noteq> []" by simp
  have nsp: "\<not> isspace (last stripped)"
    using strip_last[of t] ne by (simp add: stripped_def)
  have rne: "rest \<noteq> []"
  proof
    assume "rest = []"
    then have "last stripped = CHR '' ''" using tx by simp
    then show False using nsp isspace_space by simp
  qed
  then have "last stripped = last rest" using tx by simp
  then have ex: "\<exists>x\<in>set rest. \<not> isspace x"
    using nsp rne last_in_set by metis
  define ws where "ws = '' '' @ takeWhile isspace rest"
  define arg where "arg = dropWhile isspace rest"
  have ane: "arg \<noteq> []"
    using ex by (simp add: arg_def dropWhile_eq_Nil_conv)
  then have ahd: "\<not> isspace (hd arg)"
    unfolding arg_def by (simp add: hd_dropWhile)
  have dec: "stripped = ''/add'' @ ws @ arg"
    by (simp add: tx ws_def arg_def)
  have wsp: "\<forall>c\<in>set ws. isspace c"
    using isspace_space by (auto simp: ws_def dest: set_takeWhileD)
  have wne: "ws \<noteq> []" by (simp add: ws_def)
  have tok: "\<forall>c\<in>set ''/add''. \<not> isspace c"
    by (simp add: isspace_def)
  have "split_maxsplit1 (''/add'' @ ws @ arg) = [''/add'', arg]"
    using tok wne wsp ane ahd by (intro split_maxsplit1_token_arg) simp_all
  then show ?thesis using dec by (auto simp: stripped_def)
qed

section \<open>Every handler sends exactly one reply\<close>

lemma silent_lift: "silent (lift r)"
  by (simp add: silent_def lift_def)

lemma silent_call_backend: "silent (call_backend be method path payload)"
  by (simp add: silent_def call_backend_def Let_def split: outcome.splits body.splits)

lemma answers_answer: "answers (answer t pm)"
  by (simp add: answers_def answer_def)

lemma replies_once_answer: "replies_once (answer t pm)"
  by (simp add: replies_once_def answer_def)

lemma replies_once_if:
  "replies_once a \<Longrightarrow> replies_once b \<Longrightarrow> replies_once (if c then a else b)"
  by simp

lemma answers_if: "answers a \<Longrightarrow> answers b \<Longrightarrow> answers (if c then a else b)"
  by simp

lemma replies_once_and_then:
  assumes "silent m" "\<And>x. replies_once (f x)"
  shows "replies_once (and_then m f)"
  unfolding replies_once_def
proof
  fix s
  obtain r s1 where ms: "m s = (r, s1)" by (cases "m s")
  have "replies (snd (m s)) = replies s" using assms(1) by (simp add: silent_def)
  then have r1: "replies s1 = replies s" using ms by simp
  show "case and_then m f s of (Inl e, s') \<Rightarrow> replies s' = replies s
          | (Inr x, s') \<Rightarrow> length (replies s') = Suc (length (replies s))"
  proof (cases r)
    case (Inl e)
    then show ?thesis using ms r1 by (simp add: and_then_def)
  next
    case (Inr x)
    have "case f x s1 of (Inl e, s') \<Rightarrow> replies s' = replies s1
          | (Inr y, s') \<Rightarrow> length (replies s') = Suc (length (replies s1))"
      using assms(2)[of x] by (simp add: replies_once_def)
    then show ?thesis using ms r1 Inr by (auto simp: and_then_def split: prod.splits sum.splits)
  qed
qed

lemma answers_try_except:
  assumes "replies_once m" "\<And>e. answers (h e)"
  shows "answers (try_except m h)"
  unfolding answers_def
proof
  fix s
  obtain r s1 where ms: "m s = (r, s1)" by (cases "m s")
  have m1: "case m s of (Inl e, s') \<Rightarrow> replies s' = replies s
          | (Inr x, s') \<Rightarrow> length (replies s') = Suc (length (replies s))"
    using assms(1) by (simp add: replies_once_def)
  show "\<exists>x s'. try_except m h s = (Inr x, s') \<and> length (replies s') = Suc (length (replies s))"
  proof (cases r)
    case (Inl e)
    have "\<exists>x s'. h e s1 = (Inr x, s') \<and> length (replies s') = Suc (length (replies s1))"
      using assms(2)[of e] by (simp add: answers_def)
    then show ?thesis using ms m1 Inl by (simp add: try_except_def)
  next
    case (Inr x)
    then show ?thesis using ms m1 by (simp add: try_except_def)
  qed
qed

lemma answers_after_value: "answers (f x) \<Longrightarrow> answers (and_then (lift (Inr x)) f)"
  by (simp add: answers_def and_then_def lift_def)

lemmas reply_rules =
  answers_try_except answers_if answers_answer
  replies_once_and_then replies_once_if replies_once_answer
  silent_lift silent_call_backend

lemma answers_start_with_param: "answers (start_with_param be m)"
  unfolding start_with_param_def Let_def by (intro reply_rules)

lemma answers_start_plain: "answers (start_plain m)"
  unfolding start_plain_def by (intro reply_rules)

lemma answers_status: "answers (status be m)"
  unfolding status_def by (intro reply_rules)

lemma answers_accounts: "answers (accounts be m)"
  unfolding accounts_def by (intro reply_rules)

lemma answers_codes: "answers (codes be m)"
  unfolding codes_def by (intro reply_rules)

lemma answers_link: "answers (link be m code)"
  unfolding link_def by (intro reply_rules)

lemma answers_confirm: "answers (confirm be m)"
proof (cases "length (split_maxsplit1 (text_or_empty m)) < 2")
  case True
  then show ?thesis
    unfolding confirm_def Let_def by (simp add: answers_answer)
next
  case False
  then have i: "index (split_maxsplit1 (text_or_empty m)) 1
                = Inr (split_maxsplit1 (text_or_empty m) ! 1)"
    by (simp add: index_def)
  show ?thesis
    unfolding confirm_def Let_def using False
    by (simp only: i if_False) (intro answers_after_value reply_rules)
qed

lemma answers_fallback: "answers (fallback be m)"
proof -
  define stripped where "stripped = strip (text_or_empty m)"
  show ?thesis
  proof (cases "startswith stripped ''/add=''")
    case True
    then have "take 5 stripped = ''/add=''" by (simp add: startswith_def eval_nat_numeral)
    then have "CHR ''='' \<in> set (take 5 stripped)" by simp
    then have "CHR ''='' \<in> set stripped" by (rule in_set_takeD)
    then have "\<exists>code. index (split_sep1 (CHR ''='') stripped) 1 = Inr code"
      by (simp add: split_sep1_def index_def)
    then obtain code where "index (split_sep1 (CHR ''='') stripped) 1 = Inr code" ..
    then show ?thesis
      unfolding fallback_def Let_def using True
      by (simp add: stripped_def[symmetric] answers_after_value answers_link)
  next
    case False
    note neq = this
    show ?thesis
    proof (cases "startswith stripped ''/add ''")
      case True
      then obtain arg where "split_maxsplit1 stripped = [''/add'', arg]"
        using split_add_space[of "text_or_empty m"] by (auto simp: stripped_def)
      then have "index (split_maxsplit1 stripped) 1 = Inr arg"
        by (simp add: index_def)
      then show ?thesis
        unfolding fallback_def Let_def using True neq
        by (simp add: stripped_def[symmetric] answers_after_value answers_link)
    next
      case False
      then show ?thesis
        unfolding fallback_def Let_def using neq
        by (simp add: stripped_def[symmetric] answers_answer)
    qed
  qed
qed

lemma answers_dispatch: "answers (dispatch b be m)"
  unfolding dispatch_def
  by (simp add: answers_start_with_param answers_start_plain answers_status answers_accounts
      answers_codes answers_confirm answers_fallback)

text \<open>
  Claim C1. For every inbound message, whatever the bot's name, the backend's behaviour and
  the message are, handling the message sends exactly one chat reply, and no exception
  leaves the handler: this holds on every path of every handler, the error paths included.
\<close>

theorem exactly_one_reply:
  "fst (handle b be m) = Inr () \<and> length (replies (snd (handle b be m))) = 1"
proof -
  obtain x s' where "dispatch b be m no_effects = (Inr x, s')"
    "length (replies s') = Suc (length (replies no_effects))"
    using answers_dispatch[of b be m] unfolding answers_def by blast
  then show ?thesis by (simp add: handle_def no_effects_def)
qed

section \<open>Which handler a command reaches\<close>

lemma nospace_start: "\<forall>c\<in>set ''/start''. \<not> isspace c"
  by (simp add: isspace_def)

lemma nospace_confirm: "\<forall>c\<in>set ''/confirm''. \<not> isspace c"
  by (simp add: isspace_def)

lemma text_or_caption_text: "message_text m = Some t \<Longrightarrow> t \<noteq> [] \<Longrightarrow> text_or_caption m = Some t"
  by (simp add: text_or_caption_def)

lemma command_filter_start_arg:
  assumes "message_text m = Some (''/start'' @ ws @ arg)" "ws \<noteq> []" "\<forall>c\<in>set ws. isspace c"
    "arg \<noteq> []" "\<not> isspace (hd arg)"
  shows "command_filter ''start'' b m =
         Some \<lparr>cmd_prefix = ''/'', cmd_command = ''start'', cmd_mention = None, cmd_args = Some arg\<rparr>"
proof -
  have sp: "split_maxsplit1 (''/start'' @ ws @ arg) = [''/start'', arg]"
    using nospace_start assms(2-5) by (intro split_maxsplit1_token_arg) simp_all
  have tc: "text_or_caption m = Some (''/start'' @ ws @ arg)"
    using assms(1) by (simp add: text_or_caption_def)
  show ?thesis
    unfolding command_filter_def tc
    by (simp add: extract_command_def sp mention_ok_def del: append.simps)
qed

lemma command_filter_start_bare:
  assumes "message_text m = Some (''/start'' @ ws)" "\<forall>c\<in>set ws. isspace c"
  shows "command_filter ''start'' b m =
         Some \<lparr>cmd_prefix = ''/'', cmd_command = ''start'', cmd_mention = None, cmd_args = None\<rparr>"
proof -
  have sp: "split_maxsplit1 (''/start'' @ ws) = [''/start'']"
    using nospace_start assms(2) by (intro split_maxsplit1_token) simp_all
  have tc: "text_or_caption m = Some (''/start'' @ ws)"
    using assms(1) by (simp add: text_or_caption_def)
  show ?thesis
    unfolding command_filter_def tc
    by (simp add: extract_command_def sp mention_ok_def del: append.simps)
qed

lemma command_filter_confirm_bare:
  assumes "message_text m = Some (''/confirm'' @ ws)" "\<forall>c\<in>set ws. isspace c"
  shows "command_filter name b m =
         (if name = ''confirm''
          then Some \<lparr>cmd_prefix = ''/'', cmd_command = ''confirm'', cmd_mention = None, cmd_args = None\<rparr>
          else None)"
proof -
  have sp: "split_maxsplit1 (''/confirm'' @ ws) = [''/confirm'']"
    using nospace_confirm assms(2) by (intro split_maxsplit1_token) simp_all
  have tc: "text_or_caption m = Some (''/confirm'' @ ws)"
    using assms(1) by (simp add: text_or_caption_def)
  show ?thesis
    unfolding command_filter_def tc
    by (auto simp add: extract_command_def sp mention_ok_def simp del: append.simps)
qed

text \<open>
  Claim C5. An inbound \<^verbatim>\<open>/confirm\<close> with nothing after the command token (white space at
  most) reaches the \<^verbatim>\<open>confirm\<close> handler, which makes no backend call and replies with the
  fixed usage string.
\<close>

theorem confirm_without_argument:
  assumes "message_text msg = Some (''/confirm'' @ ws)" "\<forall>c\<in>set ws. isspace c"
  shows "dispatch b be msg = confirm be msg \<and>
         handle b be msg =
           (Inr (), \<lparr>calls = [],
                     replies = [\<lparr>reply_text = ''Usage: /confirm <trade_id> OR /confirm <account_id>:<trade_id>'',
                                 parse_mode = None\<rparr>]\<rparr>)"
proof -
  have d: "dispatch b be msg = confirm be msg"
    by (simp add: dispatch_def command_start_def command_def
        command_filter_confirm_bare[OF assms])
  have sp: "split_maxsplit1 (''/confirm'' @ ws) = [''/confirm'']"
    using nospace_confirm assms(2) by (intro split_maxsplit1_token) simp_all
  have "confirm be msg no_effects =
           (Inr (), \<lparr>calls = [],
                     replies = [\<lparr>reply_text = ''Usage: /confirm <trade_id> OR /confirm <account_id>:<trade_id>'',
                                 parse_mode = None\<rparr>]\<rparr>)"
    using assms(1) by (simp add: confirm_def text_or_empty_def sp answer_def no_effects_def del: append.simps)
  then show ?thesis using d by (simp add: handle_def)
qed

theorem confirm_without_argument_witness:
  "handle \<lparr>bot_username = None\<rparr> (\<lambda>r. NoResponse [])
     \<lparr>message_text = Some ''/confirm  '', caption = None, from_user = None\<rparr> =
   (Inr (), \<lparr>calls = [],
             replies = [\<lparr>reply_text = ''Usage: /confirm <trade_id> OR /confirm <account_id>:<trade_id>'',
                         parse_mode = None\<rparr>]\<rparr>)"
  using confirm_without_argument[of "\<lparr>message_text = Some ''/confirm  '', caption = None, from_user = None\<rparr>"
      "''  ''" "\<lparr>bot_username = None\<rparr>" "\<lambda>r. NoResponse []"]
  by (simp add: isspace_def)

text \<open>
  Claim C8. An inbound text made of the start command, white space and an argument
  \<^verbatim>\<open>login_X\<close> reaches the deep-link handler, and the login code posted to the backend is
  exactly \<open>X\<close>: the prefix is removed once (a \<^verbatim>\<open>login_\<close> inside \<open>X\<close> stays) and no white space is
  trimmed from \<open>X\<close>.
\<close>

theorem start_deep_link_login_code:
  assumes "message_text msg = Some (''/start'' @ ws @ ''login_'' @ X)"
    "ws \<noteq> []" "\<forall>c\<in>set ws. isspace c" "from_user msg = Some u"
  shows "dispatch b be msg = start_with_param be msg \<and>
         calls (snd (handle b be msg)) =
           [\<lparr>req_method = ''POST'', req_path = ''/api/telegram/bot/oauth'',
             req_payload =
               Some (JObj [(''code'', JStr X),
                           (''telegramUserId'', JStr (str_int (user_id u))),
                           (''username'', case username u of None \<Rightarrow> JNull | Some n \<Rightarrow> JStr n)])\<rparr>]"
proof -
  have f: "command_filter ''start'' b msg =
         Some \<lparr>cmd_prefix = ''/'', cmd_command = ''start'', cmd_mention = None,
               cmd_args = Some (''login_'' @ X)\<rparr>"
    using assms(1-3) by (intro command_filter_start_arg) (simp_all add: isspace_def)
  have d: "dispatch b be msg = start_with_param be msg"
    by (simp add: dispatch_def command_start_def f)
  have sp: "split_maxsplit1 (''/start'' @ ws @ ''login_'' @ X) = [''/start'', ''login_'' @ X]"
    using nospace_start assms(2,3) by (intro split_maxsplit1_token_arg) (simp_all add: isspace_def)
  have sw: "startswith (''login_'' @ X) ''login_''"
    by (simp add: startswith_def)
  have rp: "replace1 ''login_'' [] (''login_'' @ X) = X"
    using replace1_prefix[of "''login_''" "[]" X] by simp
  have "calls (snd (start_with_param be msg no_effects)) =
           [\<lparr>req_method = ''POST'', req_path = ''/api/telegram/bot/oauth'',
             req_payload =
               Some (JObj [(''code'', JStr X),
                           (''telegramUserId'', JStr (str_int (user_id u))),
                           (''username'', case username u of None \<Rightarrow> JNull | Some n \<Rightarrow> JStr n)])\<rparr>]"
    using assms(1,4) sw
    by (simp add: start_with_param_def text_or_empty_def sp rp try_except_def and_then_def
        lift_def from_user_id_def from_user_username_def call_backend_def answer_def
        no_effects_def Let_def
        split: outcome.splits body.splits del: append.simps)
  then show ?thesis using d by (simp add: handle_def)
qed

theorem start_deep_link_login_code_witness:
  "calls (snd (handle \<lparr>bot_username = None\<rparr> (\<lambda>r. Response 200 (Parsed JNull))
     \<lparr>message_text = Some ''/start login_login_x '', caption = None,
      from_user = Some \<lparr>user_id = 42, username = None\<rparr>\<rparr>)) =
   [\<lparr>req_method = ''POST'', req_path = ''/api/telegram/bot/oauth'',
     req_payload =
       Some (JObj [(''code'', JStr ''login_x ''), (''telegramUserId'', JStr ''42''),
                   (''username'', JNull)])\<rparr>]"
  using start_deep_link_login_code[of
      "\<lparr>message_text = Some ''/start login_login_x '', caption = None,
        from_user = Some \<lparr>user_id = 42, username = None\<rparr>\<rparr>"
      "'' ''" "''login_x ''" "\<lparr>user_id = 42, username = None\<rparr>"
      "\<lparr>bot_username = None\<rparr>" "\<lambda>r. Response 200 (Parsed JNull)"]
  by (simp add: isspace_def str_int_def digits.simps)

text \<open>
  Claim C9, as the code has it. A start command whose argument does not begin with \<^verbatim>\<open>login_\<close>
  makes no backend call and gets a static reply: the bare start command (no argument) gets
  the greeting of \<^verbatim>\<open>start_plain\<close>, a start command with a non-empty argument gets the command
  list of \<^verbatim>\<open>start_with_param\<close>.
\<close>

theorem start_without_login_argument:
  assumes "message_text msg = Some (''/start'' @ ws @ arg)" "\<forall>c\<in>set ws. isspace c"
    "\<not> startswith arg ''login_''" "arg \<noteq> [] \<longrightarrow> ws \<noteq> [] \<and> \<not> isspace (hd arg)"
  shows "handle b be msg =
           (Inr (), \<lparr>calls = [],
                     replies =
                       [\<lparr>reply_text =
                           (if arg = []
                            then ''SteamGuard Bot is active. Use /accounts, /codes or /add=<code> from web settings.''
                            else ''SteamGuard Bot ready.'' @ nl @
                                 ''Commands:'' @ nl @
                                 ''/add=<code> - link Telegram to web account'' @ nl @
                                 ''/accounts - list Steam accounts'' @ nl @
                                 ''/codes - get auth codes'' @ nl @
                                 ''/confirm <trade_id> - confirm pending trade'' @ nl @
                                 ''/status - bot/backend status''),
                         parse_mode = None\<rparr>]\<rparr>)"
proof (cases "arg = []")
  case True
  have f: "command_filter ''start'' b msg =
         Some \<lparr>cmd_prefix = ''/'', cmd_command = ''start'', cmd_mention = None, cmd_args = None\<rparr>"
    using assms(1,2) True by (intro command_filter_start_bare[of _ ws]) simp_all
  have "dispatch b be msg = start_plain msg"
    by (simp add: dispatch_def command_start_def f)
  then show ?thesis using True
    by (simp add: handle_def start_plain_def answer_def no_effects_def)
next
  case False
  then have w: "ws \<noteq> []" "\<not> isspace (hd arg)" using assms(4) by simp_all
  have f: "command_filter ''start'' b msg =
         Some \<lparr>cmd_prefix = ''/'', cmd_command = ''start'', cmd_mention = None, cmd_args = Some arg\<rparr>"
    using assms(1,2) w False by (intro command_filter_start_arg) simp_all
  have d: "dispatch b be msg = start_with_param be msg"
    using False by (simp add: dispatch_def command_start_def f)
  have sp: "split_maxsplit1 (''/start'' @ ws @ arg) = [''/start'', arg]"
    using nospace_start assms(2) w False by (intro split_maxsplit1_token_arg) simp_all
  show ?thesis
    using assms(1,3) False
    by (simp add: handle_def d start_with_param_def text_or_empty_def sp answer_def
        no_effects_def Let_def del: append.simps)
qed

theorem start_without_login_argument_witness:
  "handle \<lparr>bot_username = None\<rparr> (\<lambda>r. NoResponse [])
     \<lparr>message_text = Some ''/start foo'', caption = None, from_user = None\<rparr> =
   (Inr (), \<lparr>calls = [],
             replies =
               [\<lparr>reply_text = ''SteamGuard Bot ready.'' @ nl @
                                 ''Commands:'' @ nl @
                                 ''/add=<code> - link Telegram to web account'' @ nl @
                                 ''/accounts - list Steam accounts'' @ nl @
                                 ''/codes - get auth codes'' @ nl @
                                 ''/confirm <trade_id> - confirm pending trade'' @ nl @
                                 ''/status - bot/backend status'',
                 parse_mode = None\<rparr>]\<rparr>)"
  using start_without_login_argument[of
      "\<lparr>message_text = Some ''/start foo'', caption = None, from_user = None\<rparr>"
      "'' ''" "''foo''" "\<lparr>bot_username = None\<rparr>" "\<lambda>r. NoResponse []"]
  by (simp add: isspace_def startswith_def)

text \<open>
  The claim as stated, that \<^verbatim>\<open>/start foo\<close> gets the same greeting as a bare \<^verbatim>\<open>/start\<close>, fails:
  the two replies differ.
\<close>

theorem start_argument_same_greeting_counterexample:
  "replies (snd (handle \<lparr>bot_username = None\<rparr> (\<lambda>r. NoResponse [])
       \<lparr>message_text = Some ''/start foo'', caption = None, from_user = None\<rparr>))
   \<noteq> replies (snd (handle \<lparr>bot_username = None\<rparr> (\<lambda>r. NoResponse [])
       \<lparr>message_text = Some ''/start'', caption = None, from_user = None\<rparr>))"
  by (simp add: handle_def dispatch_def command_start_def command_filter_def text_or_caption_def
      extract_command_def split_maxsplit1_def isspace_def mention_ok_def start_with_param_def
      start_plain_def text_or_empty_def startswith_def answer_def no_effects_def nl_def)

section \<open>The choice of the pending confirmation\<close>

lemma subscript_pending_account:
  "subscript (pending_json p) ''account_id'' = Inr (JInt (account_id p))"
  by (simp add: pending_json_def)

lemma subscript_pending_confirmation:
  "subscript (pending_json p) ''confirmation_id'' = Inr (JStr (confirmation_id p))"
  by (simp add: pending_json_def)

lemma str_JStr: "str (JStr t) = t"
  by (simp add: str_def)

lemma str_JInt: "str (JInt i) = str_int i"
  by (simp add: str_def)

lemma find_confirmation_pending:
  "find_confirmation c (map pending_json ps) =
     Inr (case find (\<lambda>p. confirmation_id p = c) ps of
            None \<Rightarrow> JNull
          | Some p \<Rightarrow> pending_json p)"
  by (induction ps) (simp_all add: subscript_pending_confirmation str_JStr)

lemma find_account_confirmation_pending:
  "find_account_confirmation l r (map pending_json ps) =
     Inr (case find (\<lambda>p. str_int (account_id p) = l \<and> confirmation_id p = r) ps of
            None \<Rightarrow> JNull
          | Some p \<Rightarrow> pending_json p)"
  by (induction ps)
     (simp_all add: subscript_pending_account subscript_pending_confirmation str_JStr str_JInt)

text \<open>
  Claim C2. With a bare identifier (no \<^verbatim>\<open>:\<close>), the item chosen from a pending list is the
  earliest one in list order whose confirmation id equals the identifier, whatever comes
  after it; so of two items with the same confirmation id the first is chosen.
\<close>

theorem first_match_by_list_order:
  assumes "CHR '':'' \<notin> set rawArg" "i < length pending"
    "confirmation_id (pending ! i) = rawArg"
    "\<forall>j<i. confirmation_id (pending ! j) \<noteq> rawArg"
  shows "chosen_item (JArr (map pending_json pending)) rawArg = Inr (pending_json (pending ! i))"
proof -
  have "find (\<lambda>p. confirmation_id p = rawArg) pending = Some (pending ! i)"
    using assms(2-4) by (auto simp: find_Some_iff)
  then show ?thesis
    using assms(1) by (simp add: chosen_item_def seq_def find_confirmation_pending)
qed

theorem first_match_by_list_order_witness:
  "chosen_item
     (JArr [pending_json \<lparr>account_id = 1, confirmation_id = ''a'', nonce = None\<rparr>,
            pending_json \<lparr>account_id = 2, confirmation_id = ''a'', nonce = None\<rparr>]) ''a''
   = Inr (pending_json \<lparr>account_id = 1, confirmation_id = ''a'', nonce = None\<rparr>)"
  using first_match_by_list_order[of "''a''" 0
      "[\<lparr>account_id = 1, confirmation_id = ''a'', nonce = None\<rparr>,
        \<lparr>account_id = 2, confirmation_id = ''a'', nonce = None\<rparr>]"]
  by simp

text \<open>
  Claim C3. With an identifier that contains \<^verbatim>\<open>:\<close>, the item chosen is the first one for which
  both the decimal form of the account id equals the part before the first \<^verbatim>\<open>:\<close> and the
  confirmation id equals the part after it; when no item has both, nothing is chosen
  (\<^verbatim>\<open>None\<close>), also when the confirmation id alone matches.
\<close>

theorem account_and_confirmation_must_match:
  assumes "CHR '':'' \<in> set rawArg"
  shows "chosen_item (JArr (map pending_json pending)) rawArg =
           Inr (case find (\<lambda>p. str_int (account_id p) = takeWhile (\<lambda>c. c \<noteq> CHR '':'') rawArg
                               \<and> confirmation_id p = tl (dropWhile (\<lambda>c. c \<noteq> CHR '':'') rawArg))
                          pending of
                  None \<Rightarrow> JNull
                | Some p \<Rightarrow> pending_json p)"
  using assms
  by (simp add: chosen_item_def split_sep1_def seq_def find_account_confirmation_pending)

theorem account_and_confirmation_must_match_witness:
  "chosen_item (JArr [pending_json \<lparr>account_id = 1, confirmation_id = ''a'', nonce = None\<rparr>]) ''2:a''
   = Inr JNull"
  using account_and_confirmation_must_match[of "''2:a''"
      "[\<lparr>account_id = 1, confirmation_id = ''a'', nonce = None\<rparr>]"]
  by (simp add: str_int_def digits.simps)

text \<open>
  Claim C4. When the list fetched for \<^verbatim>\<open>/confirm\<close> is empty (or the response has no \<^verbatim>\<open>items\<close>),
  whatever the argument is, the handler replies \<^verbatim>\<open>No pending confirmations.\<close> and the fetch is
  the only backend request: the argument is compared with nothing and no confirm POST is sent.
\<close>

theorem empty_pending_short_circuit:
  assumes "split_maxsplit1 (text_or_empty msg) = [cmd, rawArg]"
    "from_user msg = Some u"
    "be \<lparr>req_method = ''GET'',
         req_path = ''/api/telegram/bot/confirms/'' @ str_int (user_id u),
         req_payload = None\<rparr> = Response st (Parsed (JObj kvs))"
    "st < 400"
    "dict_get kvs ''items'' (JArr []) = JArr []"
  shows "confirm be msg no_effects =
           (Inr (),
            \<lparr>calls = [\<lparr>req_method = ''GET'',
                        req_path = ''/api/telegram/bot/confirms/'' @ str_int (user_id u),
                        req_payload = None\<rparr>],
             replies = [\<lparr>reply_text = ''No pending confirmations.'', parse_mode = None\<rparr>]\<rparr>)"
  using assms
  by (simp add: confirm_def index_def try_except_def and_then_def lift_def from_user_id_def
      call_backend_def answer_def no_effects_def Let_def del: append.simps)

theorem empty_pending_short_circuit_witness:
  "confirm (\<lambda>r. Response 200 (Parsed (JObj [(''items'', JArr [])])))
     \<lparr>message_text = Some ''/confirm 1:a'', caption = None,
      from_user = Some \<lparr>user_id = 42, username = None\<rparr>\<rparr> no_effects =
   (Inr (),
    \<lparr>calls = [\<lparr>req_method = ''GET'', req_path = ''/api/telegram/bot/confirms/42'',
                req_payload = None\<rparr>],
     replies = [\<lparr>reply_text = ''No pending confirmations.'', parse_mode = None\<rparr>]\<rparr>)"
  using empty_pending_short_circuit[of
      "\<lparr>message_text = Some ''/confirm 1:a'', caption = None,
        from_user = Some \<lparr>user_id = 42, username = None\<rparr>\<rparr>"
      "''/confirm''" "''1:a''" "\<lparr>user_id = 42, username = None\<rparr>"
      "\<lambda>r. Response 200 (Parsed (JObj [(''items'', JArr [])]))" 200 "[(''items'', JArr [])]"]
  by (simp add: text_or_empty_def split_maxsplit1_def isspace_def dict_get_def str_int_def digits.simps)

section \<open>Backend errors\<close>

lemma call_backend_error:
  assumes "be \<lparr>req_method = method, req_path = path, req_payload = payload\<rparr>
             = Response st (Parsed (JObj kvs))" "400 \<le> st"
  shows "call_backend be method path payload s =
           (Inl (RuntimeError (dict_get kvs ''message'' JNull)),
            s\<lparr>calls := calls s @ [\<lparr>req_method = method, req_path = path, req_payload = payload\<rparr>]\<rparr>)"
  using assms by (simp add: call_backend_def Let_def)

lemma codes_error:
  assumes "from_user msg = Some u"
    "be \<lparr>req_method = ''GET'',
         req_path = ''/api/telegram/bot/codes/'' @ str_int (user_id u),
         req_payload = None\<rparr> = Response st (Parsed (JObj kvs))" "400 \<le> st"
  shows "codes be msg no_effects =
           (Inr (),
            \<lparr>calls = [\<lparr>req_method = ''GET'',
                        req_path = ''/api/telegram/bot/codes/'' @ str_int (user_id u),
                        req_payload = None\<rparr>],
             replies = [\<lparr>reply_text = ''Failed to fetch codes: '' @ str (dict_get kvs ''message'' JNull),
                         parse_mode = None\<rparr>]\<rparr>)"
  using assms
  by (simp add: codes_def try_except_def and_then_def lift_def from_user_id_def
      call_backend_def answer_def no_effects_def Let_def del: append.simps)

text \<open>
  Claim C6. When the backend answers with a status of 400 or more and a JSON object that
  has a \<^verbatim>\<open>message\<close> entry, \<^verbatim>\<open>call_backend\<close> raises \<^verbatim>\<open>RuntimeError\<close> with that entry, and the text
  shown to the user is the \<^verbatim>\<open>str\<close> of the entry: a string entry as it is, not the JSON of the
  body. Shown for \<^verbatim>\<open>/codes\<close>.
\<close>

theorem error_message_field_is_shown:
  assumes "400 \<le> st" "map_of kvs ''message'' = Some v" "from_user msg = Some u"
    "be \<lparr>req_method = ''GET'',
         req_path = ''/api/telegram/bot/codes/'' @ str_int (user_id u),
         req_payload = None\<rparr> = Response st (Parsed (JObj kvs))"
  shows "fst (call_backend be ''GET'' (''/api/telegram/bot/codes/'' @ str_int (user_id u)) None s)
           = Inl (RuntimeError v)
         \<and> str_exn (RuntimeError v) = str v
         \<and> str (JStr t) = t
         \<and> replies (snd (codes be msg no_effects)) =
             [\<lparr>reply_text = ''Failed to fetch codes: '' @ str v, parse_mode = None\<rparr>]"
proof -
  have dg: "dict_get kvs ''message'' JNull = v"
    using assms(2) by (simp add: dict_get_def)
  show ?thesis
    using call_backend_error[of be "''GET''" "''/api/telegram/bot/codes/'' @ str_int (user_id u)"
          None st kvs s, OF assms(4,1)]
      codes_error[where be = be, OF assms(3,4,1)]
    by (simp add: dg str_def)
qed

theorem error_message_field_is_shown_witness:
  "replies (snd (codes (\<lambda>r. Response 404 (Parsed (JObj [(''message'', JStr ''no such code'')])))
       \<lparr>message_text = Some ''/codes'', caption = None,
        from_user = Some \<lparr>user_id = 42, username = None\<rparr>\<rparr> no_effects)) =
   [\<lparr>reply_text = ''Failed to fetch codes: no such code'', parse_mode = None\<rparr>]"
  using error_message_field_is_shown[of 404 "[(''message'', JStr ''no such code'')]"
      "JStr ''no such code''"
      "\<lparr>message_text = Some ''/codes'', caption = None,
        from_user = Some \<lparr>user_id = 42, username = None\<rparr>\<rparr>"
      "\<lparr>user_id = 42, username = None\<rparr>"
      "\<lambda>r. Response 404 (Parsed (JObj [(''message'', JStr ''no such code'')]))"]
  by (simp add: str_def)

text \<open>
  Claim C10. When the backend answers with a status of 400 or more and a JSON object that has
  no \<^verbatim>\<open>message\<close> entry, \<^verbatim>\<open>call_backend\<close> raises \<^verbatim>\<open>RuntimeError(None)\<close>: the chat reply shows the
  text \<^verbatim>\<open>None\<close>, not the \<^verbatim>\<open>str\<close> of the object. Shown for \<^verbatim>\<open>/codes\<close>.
\<close>

theorem error_without_message_field_shows_None:
  assumes "400 \<le> st" "map_of kvs ''message'' = None" "from_user msg = Some u"
    "be \<lparr>req_method = ''GET'',
         req_path = ''/api/telegram/bot/codes/'' @ str_int (user_id u),
         req_payload = None\<rparr> = Response st (Parsed (JObj kvs))"
  shows "fst (call_backend be ''GET'' (''/api/telegram/bot/codes/'' @ str_int (user_id u)) None s)
           = Inl (RuntimeError JNull)
         \<and> str_exn (RuntimeError JNull) = ''None''
         \<and> str_exn (RuntimeError JNull) \<noteq> str (JObj kvs)
         \<and> replies (snd (codes be msg no_effects)) =
             [\<lparr>reply_text = ''Failed to fetch codes: None'', parse_mode = None\<rparr>]"
proof -
  have dg: "dict_get kvs ''message'' JNull = JNull"
    using assms(2) by (simp add: dict_get_def)
  show ?thesis
    using call_backend_error[of be "''GET''" "''/api/telegram/bot/codes/'' @ str_int (user_id u)"
          None st kvs s, OF assms(4,1)]
      codes_error[where be = be, OF assms(3,4,1)]
    by (simp add: dg str_def)
qed

theorem error_without_message_field_shows_None_witness:
  "replies (snd (codes (\<lambda>r. Response 500 (Parsed (JObj [(''error'', JStr ''boom'')])))
       \<lparr>message_text = Some ''/codes'', caption = None,
        from_user = Some \<lparr>user_id = 42, username = None\<rparr>\<rparr> no_effects)) =
   [\<lparr>reply_text = ''Failed to fetch codes: None'', parse_mode = None\<rparr>]"
  using error_without_message_field_shows_None[of 500 "[(''error'', JStr ''boom'')]"
      "\<lparr>message_text = Some ''/codes'', caption = None,
        from_user = Some \<lparr>user_id = 42, username = None\<rparr>\<rparr>"
      "\<lparr>user_id = 42, username = None\<rparr>"
      "\<lambda>r. Response 500 (Parsed (JObj [(''error'', JStr ''boom'')]))"]
  by simp

section \<open>A body that is not JSON\<close>
























end
